theory Spec2Isabelle
  imports Main "HOL-Library.Word"
begin

section \<open>Errors: codes, wrappers and their inspection (error.go)\<close>

text \<open>
  \<^verbatim>\<open>type Code uint16\<close>. Only the three codes that the state machine and the claims
  mention by name are given constants here; every other code is a plain number.
\<close>

type_synonym code = "16 word"

definition UNKNOWN :: code where
  "UNKNOWN = 2"

definition NOT_FOUND :: code where
  "NOT_FOUND = 5"

definition INTERNAL :: code where
  "INTERNAL = 13"

text \<open>
  A Go \<^verbatim>\<open>error\<close> is an interface value; \<^verbatim>\<open>nil\<close> is \<open>None\<close> of \<open>error option\<close>.
  The non-nil errors are the two wrapper structs of error.go, and the two error shapes
  of the standard library that the sources build: \<^verbatim>\<open>errors.New\<close> / \<^verbatim>\<open>fmt.Errorf\<close>
  without \<^verbatim>\<open>%w\<close> (a message only), and \<^verbatim>\<open>fmt.Errorf\<close> with \<^verbatim>\<open>%w\<close> (the formatted
  message and the wrapped error; it has \<^verbatim>\<open>Unwrap\<close>). The wrapper structs are unexported
  and built only by \<^verbatim>\<open>WithErrorCode\<close> and \<^verbatim>\<open>TerminalError\<close>, so \<^verbatim>\<open>inner\<close> is never nil.
\<close>

datatype error =
    errorString string
  | wrapError string error
  | codeError code error
  | terminalError error

text \<open>\<^verbatim>\<open>%04X\<close> of a \<^verbatim>\<open>uint16\<close>: four upper-case hexadecimal digits.\<close>

definition hexdigit :: "nat \<Rightarrow> char" where
  "hexdigit n = ''0123456789ABCDEF'' ! (n mod 16)"

definition hex4 :: "code \<Rightarrow> string" where
  "hex4 c = (let n = unat c in
     [hexdigit (n div 4096), hexdigit (n div 256), hexdigit (n div 16), hexdigit n])"

text \<open>The \<^verbatim>\<open>Error()\<close> method of each error shape.\<close>

fun Error :: "error \<Rightarrow> string" where
  "Error (errorString s) = s"
| "Error (wrapError s e) = s"
| "Error (codeError c e) = ''[CODE '' @ hex4 c @ ''] '' @ Error e"
| "Error (terminalError e) = Error e"

text \<open>The \<^verbatim>\<open>Unwrap()\<close> method; an error without one ends the chain.\<close>

fun Unwrap :: "error \<Rightarrow> error option" where
  "Unwrap (errorString s) = None"
| "Unwrap (wrapError s e) = Some e"
| "Unwrap (codeError c e) = Some e"
| "Unwrap (terminalError e) = Some e"

definition WithErrorCode :: "error option \<Rightarrow> code \<Rightarrow> error option" where
  "WithErrorCode err c =
     (case err of None \<Rightarrow> None | Some e \<Rightarrow> Some (codeError c e))"

text \<open>
  \<^verbatim>\<open>TerminalError(err, code...)\<close>: the variadic codes are a list. The nil check comes
  first, then the panic on more than one code (\<open>Inl\<close> carries the panic value).
\<close>

definition TerminalError :: "error option \<Rightarrow> code list \<Rightarrow> string + error option" where
  "TerminalError err cs =
     (case err of
        None \<Rightarrow> Inr None
      | Some e \<Rightarrow>
          if length cs > 1 then Inl ''only single code is allowed''
          else (let t = terminalError e in
                if length cs = 1 then Inr (Some (codeError (cs ! 0) t)) else Inr (Some t)))"

text \<open>
  \<^verbatim>\<open>errors.As(err, &t)\<close> with a \<^verbatim>\<open>*terminalError\<close> target walks the \<^verbatim>\<open>Unwrap\<close> chain
  and stops at the first error of that type.
\<close>

fun asTerminal :: "error \<Rightarrow> error option" where
  "asTerminal (errorString s) = None"
| "asTerminal (wrapError s e) = asTerminal e"
| "asTerminal (codeError c e) = asTerminal e"
| "asTerminal (terminalError e) = Some (terminalError e)"

fun asCode :: "error \<Rightarrow> (code \<times> error) option" where
  "asCode (errorString s) = None"
| "asCode (wrapError s e) = asCode e"
| "asCode (codeError c e) = Some (c, e)"
| "asCode (terminalError e) = asCode e"

definition IsTerminalError :: "error option \<Rightarrow> bool" where
  "IsTerminalError err =
     (case err of None \<Rightarrow> False | Some e \<Rightarrow> asTerminal e \<noteq> None)"

definition ErrorCode :: "error option \<Rightarrow> code" where
  "ErrorCode err =
     (case err of
        None \<Rightarrow> UNKNOWN
      | Some e \<Rightarrow> (case asCode e of Some (c, _) \<Rightarrow> c | None \<Rightarrow> UNKNOWN))"

text \<open>
  An error that was never wrapped in a code has no \<^verbatim>\<open>codeError\<close> anywhere in its chain;
  one that was never wrapped by \<^verbatim>\<open>TerminalError\<close> has no \<^verbatim>\<open>terminalError\<close>.
\<close>

fun neverCoded :: "error \<Rightarrow> bool" where
  "neverCoded (errorString s) = True"
| "neverCoded (wrapError s e) = neverCoded e"
| "neverCoded (codeError c e) = False"
| "neverCoded (terminalError e) = neverCoded e"

fun neverTerminal :: "error \<Rightarrow> bool" where
  "neverTerminal (errorString s) = True"
| "neverTerminal (wrapError s e) = neverTerminal e"
| "neverTerminal (codeError c e) = neverTerminal e"
| "neverTerminal (terminalError e) = False"

section \<open>The wire vocabulary and the protocol codec\<close>

type_synonym bytes = "8 word list"

text \<open>
  Modelled from the spec: the package \<^verbatim>\<open>internal/wire\<close> (message types, \<^verbatim>\<open>Type()\<close>,
  \<^verbatim>\<open>Protocol.Read\<close>, \<^verbatim>\<open>Protocol.Write\<close>, \<^verbatim>\<open>ErrUnexpectedMessage\<close>) and the generated
  \<^verbatim>\<open>protocol\<close> messages are not among the sources. The kinds are those the spec lists;
  the fields are those the state machine reads and writes. A journal entry other than
  the input entry is its kind and an opaque payload.
\<close>

datatype entry_kind =
    GetState | SetState | ClearState | ClearAllState | GetStateKeys | Sleep
  | InvokeService | BackgroundInvoke | SideEffect | Awakeable | CompleteAwakeable

datatype wtype =
    StartMessageType
  | PollInputEntryMessageType
  | OutputStreamEntryMessageType
  | ErrorMessageType
  | SuspensionMessageType
  | EndMessageType
  | EntryMessageType entry_kind

record start_payload =
  DebugId :: string
  KnownEntries :: "32 word"
  StateMap :: "(bytes \<times> bytes) list"
  PartialState :: bool

datatype output_result = Value bytes | Failure "32 word" string

datatype message =
    StartMessage nat start_payload
  | PollInputEntry bytes
  | OutputStreamEntryMessage output_result
  | ErrorMessage "32 word" string string
  | SuspensionMessage "32 word list"
  | EndMessage
  | EntryMessage entry_kind bytes

fun Type :: "message \<Rightarrow> wtype" where
  "Type (StartMessage v p) = StartMessageType"
| "Type (PollInputEntry b) = PollInputEntryMessageType"
| "Type (OutputStreamEntryMessage r) = OutputStreamEntryMessageType"
| "Type (ErrorMessage c msg d) = ErrorMessageType"
| "Type (SuspensionMessage ixs) = SuspensionMessageType"
| "Type EndMessage = EndMessageType"
| "Type (EntryMessage k b) = EntryMessageType k"

definition ErrUnexpectedMessage :: error where
  "ErrUnexpectedMessage = errorString ''unexpected message''"

definition ErrInvalidVersion :: error where
  "ErrInvalidVersion = errorString ''invalid version number''"

definition Version :: nat where
  "Version = 1"

text \<open>
  Modelled from the spec: the codec over one duplex stream. \<open>reads\<close> is what the
  successive calls of \<^verbatim>\<open>Read\<close> will return (a message or a framing error; an exhausted
  stream gives an end-of-stream error). \<open>wlog\<close> records every call of \<^verbatim>\<open>Write\<close> in order,
  with whether the frame was transmitted. \<open>wscript\<close> scripts the outcome of the coming
  writes (\<open>Some e\<close>: the write fails with \<open>e\<close>); when it is used up, writes succeed.
\<close>

record conn =
  reads :: "(error + message) list"
  wlog :: "(message \<times> bool) list"
  wscript :: "error option list"

definition Read :: "conn \<Rightarrow> (error + message) \<times> conn" where
  "Read c =
     (case reads c of
        [] \<Rightarrow> (Inl (errorString ''unexpected EOF''), c)
      | r # rs \<Rightarrow> (r, c\<lparr>reads := rs\<rparr>))"

definition Write :: "conn \<Rightarrow> message \<Rightarrow> error option \<times> conn" where
  "Write c msg =
     (case wscript c of
        [] \<Rightarrow> (None, c\<lparr>wlog := wlog c @ [(msg, True)]\<rparr>)
      | None # ws \<Rightarrow> (None, c\<lparr>wlog := wlog c @ [(msg, True)], wscript := ws\<rparr>)
      | Some e # ws \<Rightarrow> (Some e, c\<lparr>wlog := wlog c @ [(msg, False)], wscript := ws\<rparr>))"

text \<open>The calls of \<^verbatim>\<open>Write\<close> so far, and the frames that reached the stream.\<close>

definition attempted :: "conn \<Rightarrow> message list" where
  "attempted c = map fst (wlog c)"

definition sent :: "conn \<Rightarrow> message list" where
  "sent c = map fst (filter snd (wlog c))"

section \<open>The state machine\<close>

text \<open>
  The \<^verbatim>\<open>Machine\<close> struct. The handler is passed beside the machine (it takes the machine
  through its context), the mutex and the logger have no counterpart. \<^verbatim>\<open>entryIndex\<close> is
  a Go \<^verbatim>\<open>int\<close> that starts at 0 and is only ever incremented, hence a natural number.
\<close>

record machine =
  id :: string
  partial :: bool
  current :: "bytes \<rightharpoonup> bytes"
  entries :: "message list"
  entryIndex :: nat
  protocol :: conn

definition NewMachine :: "conn \<Rightarrow> machine" where
  "NewMachine c =
     \<lparr>id = [], partial = False, current = Map.empty, entries = [], entryIndex = 0,
      protocol = c\<rparr>"

text \<open>
  A call either returns or panics. The panic values are the suspension sentinel
  \<^verbatim>\<open>*suspend\<close> with its \<^verbatim>\<open>resumeEntry\<close>, and any other value, given by what
  \<^verbatim>\<open>fmt.Sprint\<close> prints for it and the backtrace \<^verbatim>\<open>debug.Stack()\<close> returns when it is
  recovered.
\<close>

datatype panic_value = suspend "32 word" | otherPanic string string

datatype 'a result = Returned 'a | Panicked panic_value

text \<open>
  \<^verbatim>\<open>proto.Marshal\<close> of the response and \<^verbatim>\<open>proto.Unmarshal\<close> of the request belong to the
  protobuf library; both can fail.
\<close>

record ('req, 'resp) proto =
  Marshal :: "'resp \<Rightarrow> error + bytes"
  Unmarshal :: "bytes \<Rightarrow> error + 'req"

type_synonym ('req, 'resp) handler =
  "machine \<Rightarrow> 'req \<Rightarrow> ('resp \<times> error option) result \<times> machine"

text \<open>\<^verbatim>\<open>Machine.output\<close>: the message for what the handler returned.\<close>

definition Machine_output :: "('req, 'resp) proto \<Rightarrow> 'resp \<Rightarrow> error option \<Rightarrow> message" where
  "Machine_output pr r err =
     (case err of
        Some e \<Rightarrow>
          if IsTerminalError (Some e)
          then OutputStreamEntryMessage (Failure (ucast (ErrorCode (Some e))) (Error e))
          else ErrorMessage (ucast (ErrorCode (Some e))) (Error e) []
      | None \<Rightarrow>
          (case Marshal pr r of
             Inl e \<Rightarrow> ErrorMessage (ucast INTERNAL) (Error e) ''failed to serialize call output''
           | Inr bs \<Rightarrow> OutputStreamEntryMessage (Value bs)))"

text \<open>A write through the machine's codec; the machine keeps the codec's new state.\<close>

definition mwrite :: "machine \<Rightarrow> message \<Rightarrow> error option \<times> machine" where
  "mwrite m msg = (case Write (protocol m) msg of (e, c) \<Rightarrow> (e, m\<lparr>protocol := c\<rparr>))"

text \<open>
  \<^verbatim>\<open>Machine.invoke\<close>. The deferred function runs after the body: with no panic it
  writes End; with the sentinel it writes Suspension and returns; with any other panic
  it writes Error and then End. A recovered panic leaves the unnamed result at nil.
  Errors of the deferred writes are only logged.
\<close>

definition invoke ::
  "('req, 'resp) proto \<Rightarrow> ('req, 'resp) handler \<Rightarrow> machine \<Rightarrow> 'req
     \<Rightarrow> error option \<times> machine" where
  "invoke pr h m input =
     (case h m input of
        (Returned (r, err), m1) \<Rightarrow>
          (case mwrite m1 (Machine_output pr r err) of
             (werr, m2) \<Rightarrow> (werr, snd (mwrite m2 EndMessage)))
      | (Panicked (suspend i), m1) \<Rightarrow>
          (None, snd (mwrite m1 (SuspensionMessage [i])))
      | (Panicked (otherPanic v stack), m1) \<Rightarrow>
          (None, snd (mwrite (snd (mwrite m1 (ErrorMessage (ucast INTERNAL) v stack)))
                        EndMessage)))"

text \<open>
  The loop of \<^verbatim>\<open>process\<close> that reads the replay entries:
  \<^verbatim>\<open>for i := uint32(1); i < KnownEntries; i++\<close>.
\<close>

function readEntries :: "nat \<Rightarrow> nat \<Rightarrow> machine \<Rightarrow> error option \<times> machine" where
  "readEntries i k m =
     (if i < k then
        (case Read (protocol m) of
           (Inl e, c) \<Rightarrow>
             (Some (wrapError (''failed to read entry: '' @ Error e) e), m\<lparr>protocol := c\<rparr>)
         | (Inr msg, c) \<Rightarrow>
             readEntries (Suc i) k (m\<lparr>protocol := c, entries := entries m @ [msg]\<rparr>))
      else (None, m))"
  by pat_completeness auto
termination
  by (relation "measure (\<lambda>(i, k, m). k - i)") auto

declare readEntries.simps [simp del]

text \<open>
  \<^verbatim>\<open>Machine.process\<close>. The test \<^verbatim>\<open>msg.Type() != PollInputEntryMessageType\<close> and the later
  type assertion \<^verbatim>\<open>msg.(*wire.PollInputEntry)\<close> are the one case distinction on the
  message. The capacity \<^verbatim>\<open>KnownEntries-1\<close> given to \<^verbatim>\<open>make\<close> has no counterpart (for
  \<^verbatim>\<open>KnownEntries = 0\<close> it wraps around to \<open>2^32 - 1\<close>; no property below is about
  that case).
\<close>

definition process ::
  "('req, 'resp) proto \<Rightarrow> ('req, 'resp) handler \<Rightarrow> machine \<Rightarrow> start_payload
     \<Rightarrow> error option \<times> machine" where
  "process pr h m payload =
     (let m1 = m\<lparr>current := foldl (\<lambda>cur (k, v). cur(k \<mapsto> v)) (current m) (StateMap payload)\<rparr>
      in case Read (protocol m1) of
           (Inl e, c) \<Rightarrow> (Some e, m1\<lparr>protocol := c\<rparr>)
         | (Inr msg, c) \<Rightarrow>
             (case msg of
                PollInputEntry val \<Rightarrow>
                  (case readEntries 1 (unat (KnownEntries payload))
                          (m1\<lparr>protocol := c, entries := []\<rparr>) of
                     (Some e, m2) \<Rightarrow> (Some e, m2)
                   | (None, m2) \<Rightarrow>
                       (case Unmarshal pr val of
                          Inl e \<Rightarrow>
                            (Some (wrapError (''invalid invocation input: '' @ Error e) e), m2)
                        | Inr input \<Rightarrow> invoke pr h m2 input))
              | _ \<Rightarrow> (Some ErrUnexpectedMessage, m1\<lparr>protocol := c\<rparr>)))"

text \<open>\<^verbatim>\<open>Machine.Start\<close>: one session.\<close>

definition Start ::
  "('req, 'resp) proto \<Rightarrow> ('req, 'resp) handler \<Rightarrow> machine \<Rightarrow> error option \<times> machine" where
  "Start pr h m =
     (case Read (protocol m) of
        (Inl e, c) \<Rightarrow> (Some e, m\<lparr>protocol := c\<rparr>)
      | (Inr msg, c) \<Rightarrow>
          (case msg of
             StartMessage version payload \<Rightarrow>
               (let m1 = m\<lparr>protocol := c, id := DebugId payload\<rparr>
                in if version \<noteq> Version then (Some ErrInvalidVersion, m1)
                   else process pr h m1 payload)
           | _ \<Rightarrow> (Some ErrUnexpectedMessage, m\<lparr>protocol := c\<rparr>)))"

text \<open>\<^verbatim>\<open>currentEntry\<close>: the entry at the journal index, if there is one.\<close>

definition currentEntry :: "machine \<Rightarrow> message option" where
  "currentEntry m =
     (if entryIndex m < length (entries m) then Some (entries m ! entryIndex m) else None)"

text \<open>
  \<^verbatim>\<open>replayOrNew\<close>. The callbacks are closures over the machine: they get its state and
  return the new one, and they may panic. \<open>mismatch\<close> is \<^verbatim>\<open>errEntryMismatch\<close>, whose
  declaration is not among the sources, and \<open>zero\<close> is the zero value of the output
  type. The deferred increment of \<^verbatim>\<open>entryIndex\<close> runs on every way out, a panic too.
  The type tag of a message is a function of its Go type, so once the tag is the expected
  one the assertion \<^verbatim>\<open>entry.(M)\<close> cannot fail and \<open>replay\<close> takes the message as it is.
\<close>

type_synonym 'o callback_result = "('o \<times> error option) result \<times> machine"

definition replayOrNew ::
  "error \<Rightarrow> 'o \<Rightarrow> machine \<Rightarrow> wtype \<Rightarrow> (message \<Rightarrow> machine \<Rightarrow> 'o callback_result)
     \<Rightarrow> (machine \<Rightarrow> 'o callback_result) \<Rightarrow> 'o callback_result" where
  "replayOrNew mismatch zero m typ replay new =
     (case (case currentEntry m of
              Some entry \<Rightarrow>
                if Type entry \<noteq> typ then (Returned (zero, Some mismatch), m)
                else replay entry m
            | None \<Rightarrow> new m) of
        (res, m') \<Rightarrow> (res, m'\<lparr>entryIndex := entryIndex m' + 1\<rparr>))"

section \<open>Requests, responses and their wire format (services.proto)\<close>

text \<open>
  \<^verbatim>\<open>message RpcRequest { string key = 1; google.protobuf.Value request = 2;
  int32 sender_assumes = 101; }\<close> and
  \<^verbatim>\<open>message RpcResponse { google.protobuf.Value response = 1; }\<close>.
  Of \<^verbatim>\<open>google.protobuf.Value\<close> the null kind (field 1) and the boolean kind (field 4) are
  kept; an unset message field is \<open>None\<close>.
\<close>

datatype pbValue = NullValue | BoolValue bool

record RpcRequest =
  Key :: string
  Request :: "pbValue option"
  SenderAssumes :: "32 word"

record RpcResponse =
  Response :: "pbValue option"

text \<open>
  The protobuf library is not among the sources. \<open>wireProto\<close> stands for it on the
  sample sessions below. A response is encoded as protobuf encodes it: nothing for an
  unset value, else field 1 as a length-delimited message (tag \<open>0x0A\<close>) holding the
  value, a member of a oneof, with its tag (\<open>0x08\<close> null, \<open>0x20\<close> bool) and a varint.
  The decoder is a decoder of two payloads only: it decodes the empty payload, which is
  the request with every field at its default, and refuses any other, as
  \<^verbatim>\<open>proto.Unmarshal\<close> refuses the payload \<open>0x07\<close> (a tag with field number 0) that stands
  for an undecodable input below. No sample session carries another payload.
\<close>

fun marshalValue :: "pbValue \<Rightarrow> bytes" where
  "marshalValue NullValue = [0x08, 0x00]"
| "marshalValue (BoolValue b) = [0x20, if b then 1 else 0]"

definition marshalResponse :: "RpcResponse \<Rightarrow> error + bytes" where
  "marshalResponse r =
     Inr (case Response r of
            None \<Rightarrow> []
          | Some v \<Rightarrow> [0x0A, word_of_nat (length (marshalValue v))] @ marshalValue v)"

definition emptyRequest :: RpcRequest where
  "emptyRequest = \<lparr>Key = [], Request = None, SenderAssumes = 0\<rparr>"

definition unmarshalRequest :: "bytes \<Rightarrow> error + RpcRequest" where
  "unmarshalRequest bs =
     (if bs = [] then Inr emptyRequest
      else Inl (errorString ''proto: cannot parse invalid wire-format data''))"

definition wireProto :: "(RpcRequest, RpcResponse) proto" where
  "wireProto = \<lparr>Marshal = marshalResponse, Unmarshal = unmarshalRequest\<rparr>"

definition reply :: "bool \<Rightarrow> RpcResponse" where
  "reply b = \<lparr>Response = Some (BoolValue b)\<rparr>"

definition noReply :: RpcResponse where
  "noReply = \<lparr>Response = None\<rparr>"

section \<open>Sample callbacks, handlers and streams\<close>

text \<open>
  Modelled from the spec: the journaled operations themselves (\<^verbatim>\<open>set\<close>, \<^verbatim>\<open>get\<close>,
  \<^verbatim>\<open>sleep\<close>, ...) are not among the sources. The callbacks below have the shape the
  spec's table gives them: the replay decoder of a non-blocking entry returns unit, its
  new-entry producer writes the entry; the replay decoder of a pending blocking entry
  throws the sentinel with the current index. They serve as concrete inputs only.
\<close>

definition replayUnit :: "message \<Rightarrow> machine \<Rightarrow> unit callback_result" where
  "replayUnit e s = (Returned ((), None), s)"

definition newSetState :: "bytes \<Rightarrow> machine \<Rightarrow> unit callback_result" where
  "newSetState kv s =
     (case mwrite s (EntryMessage SetState kv) of
        (None, s') \<Rightarrow> (Returned ((), None), s')
      | (Some e, s') \<Rightarrow> (Returned ((), Some e), s'))"

definition emptyConn :: conn where
  "emptyConn = \<lparr>reads = [], wlog = [], wscript = []\<rparr>"

definition failingWrites :: conn where
  "failingWrites = \<lparr>reads = [], wlog = [], wscript = [Some (errorString ''short write'')]\<rparr>"

text \<open>A handler that sleeps: replaying a pending Sleep entry suspends.\<close>

definition sleepSuspends :: "(RpcRequest, RpcResponse) handler" where
  "sleepSuspends m input =
     (case replayOrNew (errorString ''mismatch'') () m (EntryMessageType Sleep)
             (\<lambda>e s. (Panicked (suspend (word_of_nat (entryIndex s))), s))
             (\<lambda>s. (Returned ((), None), snd (mwrite s (EntryMessage Sleep []))))
      of (Returned ((), err), m') \<Rightarrow> (Returned (noReply, err), m')
       | (Panicked p, m') \<Rightarrow> (Panicked p, m'))"

definition panics :: "(RpcRequest, RpcResponse) handler" where
  "panics m input = (Panicked (otherPanic ''boom'' ''goroutine 1 [running]''), m)"

definition succeeds :: "(RpcRequest, RpcResponse) handler" where
  "succeeds m input = (Returned (reply True, None), m)"

definition fails :: "error \<Rightarrow> (RpcRequest, RpcResponse) handler" where
  "fails e m input = (Returned (noReply, Some e), m)"

text \<open>A terminal error with a code, as \<^verbatim>\<open>TerminalError(errors.New("missing"), NOT_FOUND)\<close> builds it.\<close>

definition notFound :: error where
  "notFound = codeError NOT_FOUND (terminalError (errorString ''missing''))"

text \<open>A session's incoming frames: a Start frame and a stream that delivers the given frames.\<close>

definition startFrame :: "nat \<Rightarrow> 32 word \<Rightarrow> bool \<Rightarrow> (bytes \<times> bytes) list \<Rightarrow> message" where
  "startFrame v k part st =
     StartMessage v \<lparr>DebugId = ''inv-1'', KnownEntries = k, StateMap = st, PartialState = part\<rparr>"

definition stream :: "message list \<Rightarrow> conn" where
  "stream fs = \<lparr>reads = map Inr fs, wlog = [], wscript = []\<rparr>"

text \<open>
  Three handlers whose first operation reads a key. The first goes on whatever the
  operation returned and answers whether it returned an error. The second returns the
  operation's error under another code, \<^verbatim>\<open>WithErrorCode(err, NOT_FOUND)\<close>. The third does no
  operation and reports the machine's partial flag. \<open>journalMismatch\<close> is a mismatch
  error that carries INTERNAL.
\<close>

definition journalMismatch :: error where
  "journalMismatch = codeError INTERNAL (errorString ''journal mismatch'')"

definition getOp :: "machine \<Rightarrow> bytes callback_result" where
  "getOp m =
     replayOrNew journalMismatch [] m (EntryMessageType GetState)
       (\<lambda>e s. (Returned ([], None), s))
       (\<lambda>s. (Returned ([], None), snd (mwrite s (EntryMessage GetState []))))"

definition getIgnoringError :: "(RpcRequest, RpcResponse) handler" where
  "getIgnoringError m input =
     (case getOp m of
        (Returned (v, err), m') \<Rightarrow> (Returned (reply (err \<noteq> None), None), m')
      | (Panicked p, m') \<Rightarrow> (Panicked p, m'))"

definition getRecodingError :: "(RpcRequest, RpcResponse) handler" where
  "getRecodingError m input =
     (case getOp m of
        (Returned (v, err), m') \<Rightarrow> (Returned (noReply, WithErrorCode err NOT_FOUND), m')
      | (Panicked p, m') \<Rightarrow> (Panicked p, m'))"

definition reportPartial :: "(RpcRequest, RpcResponse) handler" where
  "reportPartial m input = (Returned (reply (partial m), None), m)"

section \<open>What a session writes\<close>



fun isOutput :: "message \<Rightarrow> bool" where
  "isOutput (OutputStreamEntryMessage r) = True"
| "isOutput m = False"

fun isInternalError :: "message \<Rightarrow> bool" where
  "isInternalError (ErrorMessage c msg d) = (c = 13)"
| "isInternalError m = False"

definition oneInternalErrorNoOutput :: "message list \<Rightarrow> bool" where
  "oneInternalErrorNoOutput msgs =
     (length (filter isInternalError msgs) = 1 \<and> filter isOutput msgs = [])"

section \<open>Auxiliary facts\<close>

text \<open>The two walks are \<^verbatim>\<open>errors.As\<close>: look at the error, else go on with what it unwraps to.\<close>

lemma asTerminal_Unwrap:
  "asTerminal e =
     (case e of
        terminalError i \<Rightarrow> Some e
      | _ \<Rightarrow> (case Unwrap e of None \<Rightarrow> None | Some e' \<Rightarrow> asTerminal e'))"
  by (cases e) simp_all

lemma asCode_Unwrap:
  "asCode e =
     (case e of
        codeError c i \<Rightarrow> Some (c, i)
      | _ \<Rightarrow> (case Unwrap e of None \<Rightarrow> None | Some e' \<Rightarrow> asCode e'))"
  by (cases e) simp_all

lemma asCode_neverCoded: "neverCoded e \<Longrightarrow> asCode e = None"
  by (induction e) simp_all

lemma asTerminal_neverTerminal: "neverTerminal e \<Longrightarrow> asTerminal e = None"
  by (induction e) simp_all

lemma ErrorCode_neverCoded: "neverCoded e \<Longrightarrow> ErrorCode (Some e) = UNKNOWN"
  by (simp add: ErrorCode_def asCode_neverCoded)

lemma IsTerminalError_neverTerminal: "neverTerminal e \<Longrightarrow> \<not> IsTerminalError (Some e)"
  by (simp add: IsTerminalError_def asTerminal_neverTerminal)

lemma mwrite_attempted:
  "attempted (protocol (snd (mwrite m msg))) = attempted (protocol m) @ [msg]"
  by (simp add: mwrite_def Write_def attempted_def split: list.splits option.splits)

lemma mwrite_fields:
  "entryIndex (snd (mwrite m msg)) = entryIndex m"
  "partial (snd (mwrite m msg)) = partial m"
  "entries (snd (mwrite m msg)) = entries m"
  by (simp_all add: mwrite_def split: prod.splits)

lemma mwrite_sent:
  "wscript (protocol m) = [] \<Longrightarrow>
     sent (protocol (snd (mwrite m msg))) = sent (protocol m) @ [msg]
     \<and> wscript (protocol (snd (mwrite m msg))) = []
     \<and> fst (mwrite m msg) = None"
  by (simp add: mwrite_def Write_def sent_def)

lemma mwrite_fails:
  "wscript (protocol m) = Some e # ws \<Longrightarrow> fst (mwrite m msg) = Some e"
  by (simp add: mwrite_def Write_def)

lemma invoke_returned:
  "h m input = (Returned (r, err), m1) \<Longrightarrow>
     attempted (protocol (snd (invoke pr h m input)))
       = attempted (protocol m1) @ [Machine_output pr r err, EndMessage]"
proof -
  assume hr: "h m input = (Returned (r, err), m1)"
  obtain werr m2 where w: "mwrite m1 (Machine_output pr r err) = (werr, m2)"
    by (cases "mwrite m1 (Machine_output pr r err)")
  have "attempted (protocol m2) = attempted (protocol m1) @ [Machine_output pr r err]"
    using mwrite_attempted [of m1 "Machine_output pr r err"] w by simp
  then show ?thesis
    using hr w by (simp add: invoke_def mwrite_attempted)
qed

lemma invoke_returned_fst:
  "h m input = (Returned (r, err), m1) \<Longrightarrow>
     fst (invoke pr h m input) = fst (mwrite m1 (Machine_output pr r err))"
  by (simp add: invoke_def split: prod.splits)

lemma invoke_returned_sent:
  assumes "h m input = (Returned (r, err), m1)" and "wscript (protocol m1) = []"
  shows "sent (protocol (snd (invoke pr h m input)))
       = sent (protocol m1) @ [Machine_output pr r err, EndMessage]"
proof -
  obtain werr m2 where w: "mwrite m1 (Machine_output pr r err) = (werr, m2)"
    by (cases "mwrite m1 (Machine_output pr r err)")
  have "sent (protocol m2) = sent (protocol m1) @ [Machine_output pr r err]"
    and "wscript (protocol m2) = []"
    using mwrite_sent [OF assms(2), of "Machine_output pr r err"] w by simp_all
  then show ?thesis
    using assms(1) w mwrite_sent [of m2 EndMessage] by (simp add: invoke_def)
qed

lemma invoke_suspend:
  "h m input = (Panicked (suspend i), m1) \<Longrightarrow>
     invoke pr h m input = (None, snd (mwrite m1 (SuspensionMessage [i])))"
  by (simp add: invoke_def)

lemma invoke_other:
  "h m input = (Panicked (otherPanic v stack), m1) \<Longrightarrow>
     invoke pr h m input =
       (None, snd (mwrite (snd (mwrite m1 (ErrorMessage (ucast INTERNAL) v stack))) EndMessage))"
  by (simp add: invoke_def)

lemma newSetState_index: "entryIndex (snd (newSetState kv s)) = entryIndex s"
  using mwrite_fields(1) [of s "EntryMessage SetState kv"]
  by (cases "mwrite s (EntryMessage SetState kv)") (simp add: newSetState_def split: option.splits)

lemma Read_cons: "reads c = r # rs \<Longrightarrow> Read c = (r, c\<lparr>reads := rs\<rparr>)"
  by (simp add: Read_def)

lemma readEntries_all:
  "reads (protocol m) = map Inr es @ rest \<Longrightarrow> i + length es = k \<Longrightarrow>
     readEntries i k m
       = (None, m\<lparr>protocol := (protocol m)\<lparr>reads := rest\<rparr>, entries := entries m @ es\<rparr>)"
proof (induction es arbitrary: i m)
  case Nil
  then show ?case by (simp add: readEntries.simps [of k k m])
next
  case (Cons e es)
  let ?m' = "m\<lparr>protocol := (protocol m)\<lparr>reads := map Inr es @ rest\<rparr>,
               entries := entries m @ [e]\<rparr>"
  have r: "Read (protocol m) = (Inr e, (protocol m)\<lparr>reads := map Inr es @ rest\<rparr>)"
    using Cons.prems(1) by (simp add: Read_cons)
  have "readEntries i k m = readEntries (Suc i) k ?m'"
    using Cons.prems(2) r by (simp add: readEntries.simps [of i k m])
  also have "\<dots> = (None, ?m'\<lparr>protocol := (protocol ?m')\<lparr>reads := rest\<rparr>,
                          entries := entries ?m' @ es\<rparr>)"
    using Cons.prems(2) by (intro Cons.IH) simp_all
  finally show ?case by simp
qed

lemma Start_reaches_invoke:
  assumes "reads (protocol m)
             = Inr (StartMessage Version p) # Inr (PollInputEntry val) # map Inr es @ rest"
      and "Suc (length es) = unat (KnownEntries p)"
      and "Unmarshal pr val = Inr input"
  shows "Start pr h m
       = invoke pr h
           (m\<lparr>id := DebugId p,
              current := foldl (\<lambda>cur (k, v). cur(k \<mapsto> v)) (current m) (StateMap p),
              protocol := (protocol m)\<lparr>reads := rest\<rparr>,
              entries := es\<rparr>) input"
proof -
  let ?c1 = "(protocol m)\<lparr>reads := Inr (PollInputEntry val) # map Inr es @ rest\<rparr>"
  let ?c2 = "(protocol m)\<lparr>reads := map Inr es @ rest\<rparr>"
  let ?cur = "foldl (\<lambda>cur (k, v). cur(k \<mapsto> v)) (current m) (StateMap p)"
  let ?m2 = "m\<lparr>id := DebugId p, current := ?cur, protocol := ?c2, entries := []\<rparr>"
  have r1: "Read (protocol m) = (Inr (StartMessage Version p), ?c1)"
    using assms(1) by (simp add: Read_cons)
  have r2: "Read ?c1 = (Inr (PollInputEntry val), ?c2)"
    by (simp add: Read_cons)
  have re: "readEntries 1 (unat (KnownEntries p)) ?m2
      = (None, ?m2\<lparr>protocol := (protocol ?m2)\<lparr>reads := rest\<rparr>, entries := entries ?m2 @ es\<rparr>)"
    using assms(2) by (intro readEntries_all) simp_all
  show ?thesis
    using r1 r2 re assms(3) by (simp add: Start_def process_def)
qed

lemma Type_Start: "Type msg \<noteq> StartMessageType \<Longrightarrow> (case msg of StartMessage v p \<Rightarrow> f v p | _ \<Rightarrow> g) = g"
  by (cases msg) simp_all

lemma Type_PollInput:
  "Type msg \<noteq> PollInputEntryMessageType \<Longrightarrow> (case msg of PollInputEntry v \<Rightarrow> f v | _ \<Rightarrow> g) = g"
  by (cases msg) simp_all

lemma Start_not_start:
  "reads (protocol m) = Inr msg # rest \<Longrightarrow> Type msg \<noteq> StartMessageType \<Longrightarrow>
     Start pr h m = (Some ErrUnexpectedMessage, m\<lparr>protocol := (protocol m)\<lparr>reads := rest\<rparr>\<rparr>)"
  by (simp add: Start_def Read_cons Type_Start)

lemma Start_bad_version:
  "reads (protocol m) = Inr (StartMessage v p) # rest \<Longrightarrow> v \<noteq> Version \<Longrightarrow>
     Start pr h m
       = (Some ErrInvalidVersion, m\<lparr>protocol := (protocol m)\<lparr>reads := rest\<rparr>, id := DebugId p\<rparr>)"
  by (simp add: Start_def Read_cons)

lemma Start_not_pollinput:
  assumes "reads (protocol m) = Inr (StartMessage Version p) # Inr msg # rest"
      and "Type msg \<noteq> PollInputEntryMessageType"
  shows "fst (Start pr h m) = Some ErrUnexpectedMessage
       \<and> protocol (snd (Start pr h m)) = (protocol m)\<lparr>reads := rest\<rparr>
       \<and> entries (snd (Start pr h m)) = entries m"
proof -
  let ?c1 = "(protocol m)\<lparr>reads := Inr msg # rest\<rparr>"
  have r1: "Read (protocol m) = (Inr (StartMessage Version p), ?c1)"
    using assms(1) by (simp add: Read_cons)
  have r2: "Read ?c1 = (Inr msg, (protocol m)\<lparr>reads := rest\<rparr>)"
    by (simp add: Read_cons)
  show ?thesis
    using r1 r2 assms(2) by (simp add: Start_def process_def Type_PollInput)
qed

lemma eval_simps:
  "attempted (stream fs) = []" "wscript (stream fs) = []" "reads (stream fs) = map Inr fs"
  "protocol (NewMachine c) = c" "entries (NewMachine c) = []" "entryIndex (NewMachine c) = 0"
  "partial (NewMachine c) = False" "current (NewMachine c) = Map.empty"
  by (simp_all add: stream_def attempted_def NewMachine_def)




lemma wireProto_simps:
  "Marshal wireProto (reply b) = Inr [0x0A, 2, 0x20, if b then 1 else 0]"
  "Marshal wireProto noReply = Inr []"
  "Unmarshal wireProto [] = Inr emptyRequest"
  "Unmarshal wireProto [7] = Inl (errorString ''proto: cannot parse invalid wire-format data'')"
  by (simp_all add: wireProto_def marshalResponse_def unmarshalRequest_def reply_def noReply_def)

lemma getOp_mismatch:
  "getOp ((NewMachine c)\<lparr>id := i, current := cur, protocol := c',
            entries := [EntryMessage SetState [1]]\<rparr>)
     = (Returned ([], Some journalMismatch),
        (NewMachine c)\<lparr>id := i, current := cur, protocol := c',
            entries := [EntryMessage SetState [1]], entryIndex := 1\<rparr>)"
  by (simp add: getOp_def replayOrNew_def currentEntry_def NewMachine_def)

lemma mismatch_session:
  "Start wireProto h
      (NewMachine (stream [startFrame 1 2 False [], PollInputEntry [],
                           EntryMessage SetState [1]]))
    = invoke wireProto h
        ((NewMachine (stream [startFrame 1 2 False [], PollInputEntry [],
                           EntryMessage SetState [1]]))
          \<lparr>id := ''inv-1'', current := Map.empty, protocol := stream [],
           entries := [EntryMessage SetState [1]]\<rparr>) emptyRequest"
  using Start_reaches_invoke [where m = "NewMachine (stream [startFrame 1 2 False [],
          PollInputEntry [], EntryMessage SetState [1]])"
        and p = "\<lparr>DebugId = ''inv-1'', KnownEntries = 2, StateMap = [], PartialState = False\<rparr>"
        and val = "[]" and es = "[EntryMessage SetState [1]]" and rest = "[]"
        and pr = wireProto and input = emptyRequest and h = h]
  by (simp add: eval_simps startFrame_def wireProto_simps Version_def stream_def)






text \<open>
  Claim C1. A journaled operation goes through \<^verbatim>\<open>replayOrNew\<close> with an expected entry type.
  If there is an entry at the journal index and its type is the expected one, the replay
  callback is invoked on that entry: the result and the machine are those the callback
  leaves, whatever the new-entry callback is. If there is no entry at the index, the
  new-entry callback is invoked: the result and the machine are those it leaves, whatever
  the replay callback is. On a mismatch neither runs. In every case the index is then one
  more: one more than in the machine the callback left, hence exactly one more than before
  for callbacks that leave the index alone.
\<close>

theorem replayOrNew_replays_or_creates:
  "(entryIndex m < length (entries m) \<and> Type (entries m ! entryIndex m) = ty \<longrightarrow>
      replayOrNew mm z m ty replay new
        = (fst (replay (entries m ! entryIndex m) m),
           (snd (replay (entries m ! entryIndex m) m))
             \<lparr>entryIndex := entryIndex (snd (replay (entries m ! entryIndex m) m)) + 1\<rparr>)
      \<and> replayOrNew mm z m ty replay new' = replayOrNew mm z m ty replay new)
   \<and> (length (entries m) \<le> entryIndex m \<longrightarrow>
      replayOrNew mm z m ty replay new
        = (fst (new m), (snd (new m))\<lparr>entryIndex := entryIndex (snd (new m)) + 1\<rparr>)
      \<and> replayOrNew mm z m ty replay' new = replayOrNew mm z m ty replay new)
   \<and> (entryIndex m < length (entries m) \<and> Type (entries m ! entryIndex m) \<noteq> ty \<longrightarrow>
      replayOrNew mm z m ty replay new
        = (Returned (z, Some mm), m\<lparr>entryIndex := entryIndex m + 1\<rparr>))
   \<and> ((\<forall>e s. entryIndex (snd (replay e s)) = entryIndex s)
        \<and> (\<forall>s. entryIndex (snd (new s)) = entryIndex s) \<longrightarrow>
      entryIndex (snd (replayOrNew mm z m ty replay new)) = entryIndex m + 1)"
proof -
  let ?e = "entries m ! entryIndex m"
  have A: "replayOrNew mm z m ty replay new
             = (fst (replay ?e m),
                (snd (replay ?e m))\<lparr>entryIndex := entryIndex (snd (replay ?e m)) + 1\<rparr>)
           \<and> replayOrNew mm z m ty replay new' = replayOrNew mm z m ty replay new"
    if "entryIndex m < length (entries m)" and "Type ?e = ty"
    using that by (simp add: replayOrNew_def currentEntry_def split: prod.splits)
  have B: "replayOrNew mm z m ty replay new
             = (fst (new m), (snd (new m))\<lparr>entryIndex := entryIndex (snd (new m)) + 1\<rparr>)
           \<and> replayOrNew mm z m ty replay' new = replayOrNew mm z m ty replay new"
    if "length (entries m) \<le> entryIndex m"
    using that by (simp add: replayOrNew_def currentEntry_def split: prod.splits)
  have C: "replayOrNew mm z m ty replay new
             = (Returned (z, Some mm), m\<lparr>entryIndex := entryIndex m + 1\<rparr>)"
    if "entryIndex m < length (entries m)" and "Type ?e \<noteq> ty"
    using that by (simp add: replayOrNew_def currentEntry_def)
  have D: "entryIndex (snd (replayOrNew mm z m ty replay new)) = entryIndex m + 1"
    if kr: "\<forall>e s. entryIndex (snd (replay e s)) = entryIndex s"
      and kn: "\<forall>s. entryIndex (snd (new s)) = entryIndex s"
  proof -
    consider (match) "entryIndex m < length (entries m)" "Type ?e = ty"
      | (none) "length (entries m) \<le> entryIndex m"
      | (mismatch) "entryIndex m < length (entries m)" "Type ?e \<noteq> ty"
      by linarith
    then show ?thesis
    proof cases
      case match
      then show ?thesis using A kr by simp
    next
      case none
      then show ?thesis using B kn by simp
    next
      case mismatch
      then show ?thesis using C by simp
    qed
  qed
  show ?thesis
    using A B C D by blast
qed

theorem replayOrNew_replays_or_creates_witness:
  "(\<forall>e s. entryIndex (snd (replayUnit e s)) = entryIndex s)
   \<and> (\<forall>s. entryIndex (snd (newSetState [1] s)) = entryIndex s)
   \<and> replayOrNew (errorString ''mismatch'') ()
         ((NewMachine emptyConn)\<lparr>entries := [EntryMessage SetState [1]]\<rparr>)
         (EntryMessageType SetState) replayUnit (newSetState [1])
        = (Returned ((), None),
           (NewMachine emptyConn)\<lparr>entries := [EntryMessage SetState [1]], entryIndex := 1\<rparr>)
   \<and> replayOrNew (errorString ''mismatch'') () (NewMachine emptyConn)
         (EntryMessageType SetState) replayUnit (newSetState [1])
        = (Returned ((), None),
           (NewMachine (emptyConn\<lparr>wlog := [(EntryMessage SetState [1], True)]\<rparr>))
             \<lparr>entryIndex := 1\<rparr>)
   \<and> entryIndex (snd (replayOrNew (errorString ''mismatch'') () (NewMachine emptyConn)
         (EntryMessageType SetState) replayUnit (newSetState [1]))) = 1
   \<and> replayOrNew (errorString ''mismatch'') ()
         ((NewMachine emptyConn)\<lparr>entries := [EntryMessage SetState [1]]\<rparr>)
         (EntryMessageType GetState) replayUnit (newSetState [1])
        = (Returned ((), Some (errorString ''mismatch'')),
           (NewMachine emptyConn)\<lparr>entries := [EntryMessage SetState [1]], entryIndex := 1\<rparr>)"
proof -
  have r: "\<forall>e s. entryIndex (snd (replayUnit e s)) = entryIndex s"
    by (simp add: replayUnit_def)
  have n: "\<forall>s. entryIndex (snd (newSetState [1] s)) = entryIndex s"
    by (simp add: newSetState_index)
  let ?m = "(NewMachine emptyConn)\<lparr>entries := [EntryMessage SetState [1]]\<rparr>"
  note a = replayOrNew_replays_or_creates [where m = "?m" and ty = "EntryMessageType SetState"
      and mm = "errorString ''mismatch''" and z = "()" and replay = replayUnit
      and new = "newSetState [1]"]
  note b = replayOrNew_replays_or_creates [where m = "NewMachine emptyConn"
      and ty = "EntryMessageType SetState" and mm = "errorString ''mismatch''" and z = "()"
      and replay = replayUnit and new = "newSetState [1]"]
  note c = replayOrNew_replays_or_creates [where m = "?m" and ty = "EntryMessageType GetState"
      and mm = "errorString ''mismatch''" and z = "()" and replay = replayUnit
      and new = "newSetState [1]"]
  have e: "entries ?m = [EntryMessage SetState [1]]" "entryIndex ?m = 0"
    "entries (NewMachine emptyConn) = []" "entryIndex (NewMachine emptyConn) = 0"
    by (simp_all add: NewMachine_def)
  have ru: "replayUnit (EntryMessage SetState [1]) ?m = (Returned ((), None), ?m)"
    by (simp add: replayUnit_def)
  have nu: "newSetState [1] (NewMachine emptyConn)
      = (Returned ((), None),
         NewMachine (emptyConn\<lparr>wlog := [(EntryMessage SetState [1], True)]\<rparr>))"
    by (simp add: newSetState_def mwrite_def Write_def NewMachine_def emptyConn_def)
  have 1: "replayOrNew (errorString ''mismatch'') () ?m (EntryMessageType SetState)
              replayUnit (newSetState [1])
        = (Returned ((), None),
           (NewMachine emptyConn)\<lparr>entries := [EntryMessage SetState [1]], entryIndex := 1\<rparr>)"
    using a e ru by (simp add: NewMachine_def)
  have 2: "replayOrNew (errorString ''mismatch'') () (NewMachine emptyConn)
         (EntryMessageType SetState) replayUnit (newSetState [1])
        = (Returned ((), None),
           (NewMachine (emptyConn\<lparr>wlog := [(EntryMessage SetState [1], True)]\<rparr>))
             \<lparr>entryIndex := 1\<rparr>)"
    using b e nu by (simp add: NewMachine_def)
  have 3: "entryIndex (snd (replayOrNew (errorString ''mismatch'') () (NewMachine emptyConn)
              (EntryMessageType SetState) replayUnit (newSetState [1]))) = 1"
    using b r n e by simp
  have 4: "replayOrNew (errorString ''mismatch'') () ?m (EntryMessageType GetState)
              replayUnit (newSetState [1])
        = (Returned ((), Some (errorString ''mismatch'')),
           (NewMachine emptyConn)\<lparr>entries := [EntryMessage SetState [1]], entryIndex := 1\<rparr>)"
    using c e by simp
  show ?thesis
    using 1 2 3 4 r n by blast
qed

text \<open>
  Claim C2 (as stated, refuted). The journal holds a SetState entry and the handler's first operation
  is a Get. The operation returns the mismatch error to the handler, here an error that
  carries INTERNAL. A handler that carries on and returns a value ends the session with an
  Output and no Error. A handler that returns the error under another code ends it with an
  Error of that code, not INTERNAL.
\<close>

theorem mismatch_ignored_by_handler:
  "attempted (protocol (snd (Start wireProto getIgnoringError
      (NewMachine (stream [startFrame 1 2 False [], PollInputEntry [],
                           EntryMessage SetState [1]])))))
     = [OutputStreamEntryMessage (Value [0x0A, 2, 0x20, 1]), EndMessage]
   \<and> \<not> oneInternalErrorNoOutput (attempted (protocol (snd (Start wireProto getIgnoringError
      (NewMachine (stream [startFrame 1 2 False [], PollInputEntry [],
                           EntryMessage SetState [1]]))))))
   \<and> attempted (protocol (snd (Start wireProto getRecodingError
      (NewMachine (stream [startFrame 1 2 False [], PollInputEntry [],
                           EntryMessage SetState [1]])))))
     = [ErrorMessage 5 ''[CODE 0005] [CODE 000D] journal mismatch'' [], EndMessage]
   \<and> \<not> oneInternalErrorNoOutput (attempted (protocol (snd (Start wireProto getRecodingError
      (NewMachine (stream [startFrame 1 2 False [], PollInputEntry [],
                           EntryMessage SetState [1]]))))))"
proof -
  have 1: "attempted (protocol (snd (Start wireProto getIgnoringError
      (NewMachine (stream [startFrame 1 2 False [], PollInputEntry [],
                           EntryMessage SetState [1]])))))
     = [OutputStreamEntryMessage (Value [0x0A, 2, 0x20, 1]), EndMessage]"
    by (simp only: mismatch_session)
      (simp add: invoke_def getIgnoringError_def getOp_mismatch
        Machine_output_def wireProto_simps mwrite_def Write_def stream_def attempted_def)
  have 2: "attempted (protocol (snd (Start wireProto getRecodingError
      (NewMachine (stream [startFrame 1 2 False [], PollInputEntry [],
                           EntryMessage SetState [1]])))))
     = [ErrorMessage 5 ''[CODE 0005] [CODE 000D] journal mismatch'' [], EndMessage]"
    by (simp only: mismatch_session)
      (simp add: invoke_def getRecodingError_def getOp_mismatch
        Machine_output_def WithErrorCode_def IsTerminalError_def ErrorCode_def
        journalMismatch_def NOT_FOUND_def INTERNAL_def hex4_def hexdigit_def
        mwrite_def Write_def stream_def attempted_def)
  show ?thesis
    using 1 2 by (simp add: oneInternalErrorNoOutput_def)
qed

text \<open>
  Claim C2 (amended). When the entry at the journal index has another type than the operation
  expects, \<^verbatim>\<open>replayOrNew\<close> runs no callback, advances the index and returns the mismatch error
  to the calling operation. When the handler returns this error and it is not terminal, one
  Error message with the error's own code and message is written, then End, and no Output;
  the code is INTERNAL when the mismatch error carries INTERNAL.
\<close>

theorem mismatch_returns_error:
  assumes "entryIndex m < length (entries m)"
      and "Type (entries m ! entryIndex m) \<noteq> ty"
  shows "replayOrNew mm z m ty replay new
           = (Returned (z, Some mm), m\<lparr>entryIndex := entryIndex m + 1\<rparr>)
       \<and> (h m' input = (Returned (r, Some mm), m1) \<and> \<not> IsTerminalError (Some mm) \<longrightarrow>
            attempted (protocol (snd (invoke pr h m' input)))
              = attempted (protocol m1)
                @ [ErrorMessage (ucast (ErrorCode (Some mm))) (Error mm) [], EndMessage])
       \<and> (h m' input = (Returned (r, Some mm), m1) \<and> \<not> IsTerminalError (Some mm)
            \<and> ErrorCode (Some mm) = INTERNAL \<longrightarrow>
            oneInternalErrorNoOutput
              (drop (length (attempted (protocol m1)))
                 (attempted (protocol (snd (invoke pr h m' input))))))"
  using assms
  by (simp add: replayOrNew_def currentEntry_def invoke_returned Machine_output_def
      oneInternalErrorNoOutput_def INTERNAL_def)

theorem mismatch_returns_error_witness:
  "replayOrNew journalMismatch ()
      ((NewMachine emptyConn)\<lparr>entries := [EntryMessage SetState [1]]\<rparr>)
      (EntryMessageType GetState) replayUnit (newSetState [1])
     = (Returned ((), Some journalMismatch),
        (NewMachine emptyConn)\<lparr>entries := [EntryMessage SetState [1]], entryIndex := 1\<rparr>)
   \<and> \<not> IsTerminalError (Some journalMismatch)
   \<and> ErrorCode (Some journalMismatch) = INTERNAL
   \<and> attempted (protocol (snd (invoke wireProto (fails journalMismatch)
        (NewMachine emptyConn) emptyRequest)))
     = [ErrorMessage 13 ''[CODE 000D] journal mismatch'' [], EndMessage]
   \<and> oneInternalErrorNoOutput (attempted (protocol (snd (invoke wireProto
        (fails journalMismatch) (NewMachine emptyConn) emptyRequest))))"
proof -
  let ?m = "(NewMachine emptyConn)\<lparr>entries := [EntryMessage SetState [1]]\<rparr>"
  have i: "entryIndex ?m < length (entries ?m)"
    and t: "Type (entries ?m ! entryIndex ?m) \<noteq> EntryMessageType GetState"
    by (simp_all add: NewMachine_def)
  note th = mismatch_returns_error [OF i t, where mm = journalMismatch and z = "()"
      and replay = replayUnit and new = "newSetState [1]" and h = "fails journalMismatch"
      and m' = "NewMachine emptyConn" and input = emptyRequest and r = noReply
      and ?m1.0 = "NewMachine emptyConn" and pr = wireProto]
  have n: "\<not> IsTerminalError (Some journalMismatch)"
    by (simp add: IsTerminalError_def journalMismatch_def)
  have c: "ErrorCode (Some journalMismatch) = INTERNAL"
    "ucast (ErrorCode (Some journalMismatch)) = (13 :: 32 word)"
    "Error journalMismatch = ''[CODE 000D] journal mismatch''"
    by (simp_all add: ErrorCode_def journalMismatch_def INTERNAL_def hex4_def hexdigit_def)
  have a: "attempted (protocol (NewMachine emptyConn)) = []"
    by (simp add: NewMachine_def emptyConn_def attempted_def)
  have f: "fails journalMismatch (NewMachine emptyConn) emptyRequest
      = (Returned (noReply, Some journalMismatch), NewMachine emptyConn)"
    by (simp add: fails_def)
  have 1: "replayOrNew journalMismatch () ?m (EntryMessageType GetState) replayUnit
             (newSetState [1])
     = (Returned ((), Some journalMismatch),
        (NewMachine emptyConn)\<lparr>entries := [EntryMessage SetState [1]], entryIndex := 1\<rparr>)"
    using th by (simp add: NewMachine_def)
  have 2: "attempted (protocol (snd (invoke wireProto (fails journalMismatch)
        (NewMachine emptyConn) emptyRequest)))
     = [ErrorMessage 13 ''[CODE 000D] journal mismatch'' [], EndMessage]"
    using th n c a f by simp
  have 3: "oneInternalErrorNoOutput (attempted (protocol (snd (invoke wireProto
        (fails journalMismatch) (NewMachine emptyConn) emptyRequest))))"
  proof -
    have "oneInternalErrorNoOutput
            (drop (length (attempted (protocol (NewMachine emptyConn))))
               (attempted (protocol (snd (invoke wireProto (fails journalMismatch)
                  (NewMachine emptyConn) emptyRequest)))))"
      using th n c(1) f by blast
    then show ?thesis using a by simp
  qed
  show ?thesis
    using 1 2 3 n c(1) by blast
qed




text \<open>
  Claim C4. When the handler unwinds with the suspension sentinel, \<^verbatim>\<open>invoke\<close> recovers it, makes
  one write, of a Suspension message listing the sentinel's entry index, writes no End,
  and returns nil.
\<close>

theorem invoke_suspension:
  assumes "h m input = (Panicked (suspend i), m1)"
  shows "fst (invoke pr h m input) = None
       \<and> attempted (protocol (snd (invoke pr h m input)))
           = attempted (protocol m1) @ [SuspensionMessage [i]]
       \<and> EndMessage \<notin> set (drop (length (attempted (protocol m1)))
                                (attempted (protocol (snd (invoke pr h m input)))))"
  using assms by (simp add: invoke_suspend mwrite_attempted)

theorem invoke_suspension_witness:
  "sleepSuspends ((NewMachine emptyConn)\<lparr>entries := [EntryMessage Sleep []]\<rparr>) emptyRequest
      = (Panicked (suspend 0),
         (NewMachine emptyConn)\<lparr>entries := [EntryMessage Sleep []], entryIndex := 1\<rparr>)
   \<and> fst (invoke wireProto sleepSuspends
            ((NewMachine emptyConn)\<lparr>entries := [EntryMessage Sleep []]\<rparr>) emptyRequest) = None
   \<and> attempted (protocol (snd (invoke wireProto sleepSuspends
            ((NewMachine emptyConn)\<lparr>entries := [EntryMessage Sleep []]\<rparr>) emptyRequest)))
        = [SuspensionMessage [0]]"
proof -
  let ?m = "(NewMachine emptyConn)\<lparr>entries := [EntryMessage Sleep []]\<rparr>"
  have h: "sleepSuspends ?m emptyRequest
      = (Panicked (suspend 0),
         (NewMachine emptyConn)\<lparr>entries := [EntryMessage Sleep []], entryIndex := 1\<rparr>)"
    by (simp add: sleepSuspends_def replayOrNew_def currentEntry_def NewMachine_def)
  have a: "attempted (protocol ((NewMachine emptyConn)\<lparr>entries := [EntryMessage Sleep []],
              entryIndex := 1\<rparr>)) = []"
    by (simp add: NewMachine_def emptyConn_def attempted_def)
  show ?thesis
    using invoke_suspension [where h = sleepSuspends and m = "?m" and input = emptyRequest
        and pr = wireProto, OF h] h a by simp
qed

text \<open>
  Claim C5. When the handler returns a result and no error, and the result serialises, one Output
  message with the serialised value is written; when it returns a terminal error, one
  Output message with a Failure of the error's code and message; when it returns any other
  error, one Error message with the error's code and message and no Output. An error
  never wrapped by \<^verbatim>\<open>TerminalError\<close> is not terminal, and the code of an error never
  wrapped in a code is UNKNOWN.
\<close>

theorem handler_return_messages:
  "(h m input = (Returned (r, None), m1) \<and> Marshal pr r = Inr bs \<longrightarrow>
      attempted (protocol (snd (invoke pr h m input)))
        = attempted (protocol m1) @ [OutputStreamEntryMessage (Value bs), EndMessage])
   \<and> (h m input = (Returned (r, Some e), m1) \<and> IsTerminalError (Some e) \<longrightarrow>
      attempted (protocol (snd (invoke pr h m input)))
        = attempted (protocol m1)
          @ [OutputStreamEntryMessage (Failure (ucast (ErrorCode (Some e))) (Error e)),
             EndMessage])
   \<and> (h m input = (Returned (r, Some e), m1) \<and> \<not> IsTerminalError (Some e) \<longrightarrow>
      attempted (protocol (snd (invoke pr h m input)))
        = attempted (protocol m1)
          @ [ErrorMessage (ucast (ErrorCode (Some e))) (Error e) [], EndMessage])
   \<and> (neverTerminal e \<longrightarrow> \<not> IsTerminalError (Some e))
   \<and> (neverCoded e \<longrightarrow> ErrorCode (Some e) = UNKNOWN)"
  by (simp add: invoke_returned Machine_output_def IsTerminalError_neverTerminal
      ErrorCode_neverCoded)

theorem handler_return_messages_witness:
  "attempted (protocol (snd (invoke wireProto succeeds (NewMachine emptyConn) emptyRequest)))
     = [OutputStreamEntryMessage (Value [0x0A, 2, 0x20, 1]), EndMessage]
   \<and> IsTerminalError (Some notFound)
   \<and> attempted (protocol (snd (invoke wireProto (fails notFound) (NewMachine emptyConn) emptyRequest)))
     = [OutputStreamEntryMessage (Failure 5 ''[CODE 0005] missing''), EndMessage]
   \<and> \<not> IsTerminalError (Some (errorString ''oops''))
   \<and> neverTerminal (errorString ''oops'') \<and> neverCoded (errorString ''oops'')
   \<and> attempted (protocol (snd (invoke wireProto (fails (errorString ''oops''))
          (NewMachine emptyConn) emptyRequest)))
     = [ErrorMessage 2 ''oops'' [], EndMessage]"
proof -
  have a: "attempted (protocol (NewMachine emptyConn)) = []"
    by (simp add: NewMachine_def emptyConn_def attempted_def)
  have t: "IsTerminalError (Some notFound)" "\<not> IsTerminalError (Some (errorString ''oops''))"
    by (simp_all add: IsTerminalError_def notFound_def)
  have c: "ucast (ErrorCode (Some notFound)) = (5 :: 32 word)"
    "Error notFound = ''[CODE 0005] missing''"
    "ucast (ErrorCode (Some (errorString ''oops''))) = (2 :: 32 word)"
    by (simp_all add: ErrorCode_def notFound_def NOT_FOUND_def UNKNOWN_def hex4_def hexdigit_def)
  note t1 = handler_return_messages [where h = succeeds and m = "NewMachine emptyConn"
      and input = emptyRequest and r = "reply True" and pr = wireProto and bs = "[0x0A, 2, 0x20, 1]"
      and ?m1.0 = "NewMachine emptyConn"]
  note t2 = handler_return_messages [where h = "fails notFound" and m = "NewMachine emptyConn"
      and input = emptyRequest and r = noReply and pr = wireProto and e = notFound
      and ?m1.0 = "NewMachine emptyConn"]
  note t3 = handler_return_messages [where h = "fails (errorString ''oops'')"
      and m = "NewMachine emptyConn" and input = emptyRequest and r = noReply and pr = wireProto
      and e = "errorString ''oops''" and ?m1.0 = "NewMachine emptyConn"]
  have 1: "attempted (protocol (snd (invoke wireProto succeeds (NewMachine emptyConn) emptyRequest)))
     = [OutputStreamEntryMessage (Value [0x0A, 2, 0x20, 1]), EndMessage]"
    using t1 a by (simp add: succeeds_def wireProto_simps)
  have 2: "attempted (protocol (snd (invoke wireProto (fails notFound) (NewMachine emptyConn) emptyRequest)))
     = [OutputStreamEntryMessage (Failure 5 ''[CODE 0005] missing''), EndMessage]"
    using t2 a t c by (simp add: fails_def)
  have 3: "attempted (protocol (snd (invoke wireProto (fails (errorString ''oops''))
          (NewMachine emptyConn) emptyRequest)))
     = [ErrorMessage 2 ''oops'' [], EndMessage]"
    using t3 a t c by (simp add: fails_def)
  show ?thesis
    using 1 2 3 t by simp
qed

text \<open>
  Claim C6 (as stated, refuted). The input entry is not recorded at index 0 of the journal: after a session of
  a Start frame announcing two entries, the input entry and a SetState entry, the journal
  holds the SetState entry alone, and it is that entry which sits at index 0.
\<close>

theorem input_entry_not_in_journal:
  "entries (snd (Start wireProto succeeds
      (NewMachine (stream [startFrame 1 2 False [], PollInputEntry [7],
                           EntryMessage SetState [1]]))))
     = [EntryMessage SetState [1]]
   \<and> entries (snd (Start wireProto succeeds
      (NewMachine (stream [startFrame 1 2 False [], PollInputEntry [7],
                           EntryMessage SetState [1]])))) ! 0
     \<noteq> PollInputEntry [7]"
  by (simp add: Start_def process_def Read_def readEntries.simps startFrame_def stream_def
      NewMachine_def Version_def wireProto_simps)

text \<open>
  Claim C6 (amended). \<^verbatim>\<open>Start\<close>: a first frame that is not Start fails with the unexpected-message
  error; a Start frame whose version is not 1 fails with the invalid-version error; a next
  frame that is not PollInput fails with the unexpected-message error; otherwise the K - 1
  frames that follow are read and become the journal entries (the input entry is not among
  them), in arrival order, and then the handler is invoked on the decoded input.
\<close>

theorem Start_negotiation:
  "(reads (protocol m) = Inr msg # rest \<and> Type msg \<noteq> StartMessageType \<longrightarrow>
      Start pr h m = (Some ErrUnexpectedMessage, m\<lparr>protocol := (protocol m)\<lparr>reads := rest\<rparr>\<rparr>))
   \<and> (reads (protocol m) = Inr (StartMessage v p) # rest \<and> v \<noteq> 1 \<longrightarrow>
      Start pr h m
        = (Some ErrInvalidVersion,
           m\<lparr>protocol := (protocol m)\<lparr>reads := rest\<rparr>, id := DebugId p\<rparr>))
   \<and> (reads (protocol m) = Inr (StartMessage 1 p) # Inr msg # rest
        \<and> Type msg \<noteq> PollInputEntryMessageType \<longrightarrow>
      fst (Start pr h m) = Some ErrUnexpectedMessage
      \<and> protocol (snd (Start pr h m)) = (protocol m)\<lparr>reads := rest\<rparr>)
   \<and> (reads (protocol m)
          = Inr (StartMessage 1 p) # Inr (PollInputEntry val) # map Inr es @ rest
        \<and> Suc (length es) = unat (KnownEntries p) \<and> Unmarshal pr val = Inr input \<longrightarrow>
      Start pr h m
        = invoke pr h
            (m\<lparr>id := DebugId p,
               current := foldl (\<lambda>cur (k, v). cur(k \<mapsto> v)) (current m) (StateMap p),
               protocol := (protocol m)\<lparr>reads := rest\<rparr>,
               entries := es\<rparr>) input)"
  using Start_not_start [of m msg rest pr h] Start_bad_version [of m v p rest pr h]
    Start_not_pollinput [of m p msg rest pr h] Start_reaches_invoke [of m p val es rest pr input h]
  by (simp add: Version_def)

theorem Start_negotiation_witness:
  "fst (Start wireProto succeeds (NewMachine (stream [PollInputEntry []])))
      = Some ErrUnexpectedMessage
   \<and> fst (Start wireProto succeeds (NewMachine (stream [startFrame 2 1 False [], PollInputEntry []])))
      = Some ErrInvalidVersion
   \<and> fst (Start wireProto succeeds (NewMachine (stream [startFrame 1 1 False [], EndMessage])))
      = Some ErrUnexpectedMessage
   \<and> Start wireProto succeeds (NewMachine (stream
        [startFrame 1 3 False [], PollInputEntry [], EntryMessage SetState [1],
         EntryMessage GetState [2]]))
      = (None,
         (NewMachine \<lparr>reads = [],
                      wlog = [(OutputStreamEntryMessage (Value [0x0A, 2, 0x20, 1]), True), (EndMessage, True)],
                      wscript = []\<rparr>)
         \<lparr>id := ''inv-1'', entries := [EntryMessage SetState [1], EntryMessage GetState [2]]\<rparr>)"
proof -
  note a = Start_negotiation [where m = "NewMachine (stream [PollInputEntry []])"
      and msg = "PollInputEntry []" and rest = "[]" and pr = wireProto and h = succeeds]
  note b = Start_negotiation [where m = "NewMachine (stream [startFrame 2 1 False [], PollInputEntry []])"
      and v = 2 and rest = "[Inr (PollInputEntry [])]" and pr = wireProto and h = succeeds
      and p = "\<lparr>DebugId = ''inv-1'', KnownEntries = 1, StateMap = [], PartialState = False\<rparr>"]
  note c = Start_negotiation [where m = "NewMachine (stream [startFrame 1 1 False [], EndMessage])"
      and msg = EndMessage and rest = "[]" and pr = wireProto and h = succeeds
      and p = "\<lparr>DebugId = ''inv-1'', KnownEntries = 1, StateMap = [], PartialState = False\<rparr>"]
  note d = Start_negotiation [where m = "NewMachine (stream
        [startFrame 1 3 False [], PollInputEntry [], EntryMessage SetState [1],
         EntryMessage GetState [2]])"
      and val = "[]" and es = "[EntryMessage SetState [1], EntryMessage GetState [2]]"
      and rest = "[]" and pr = wireProto and h = succeeds and input = emptyRequest
      and p = "\<lparr>DebugId = ''inv-1'', KnownEntries = 3, StateMap = [], PartialState = False\<rparr>"]
  have 1: "fst (Start wireProto succeeds (NewMachine (stream [PollInputEntry []])))
      = Some ErrUnexpectedMessage"
    using a by (simp add: eval_simps)
  have 2: "fst (Start wireProto succeeds (NewMachine (stream [startFrame 2 1 False [], PollInputEntry []])))
      = Some ErrInvalidVersion"
    using b by (simp add: eval_simps startFrame_def)
  have 3: "fst (Start wireProto succeeds (NewMachine (stream [startFrame 1 1 False [], EndMessage])))
      = Some ErrUnexpectedMessage"
    using c by (simp add: eval_simps startFrame_def)
  have 4: "Start wireProto succeeds (NewMachine (stream
        [startFrame 1 3 False [], PollInputEntry [], EntryMessage SetState [1],
         EntryMessage GetState [2]]))
      = (None,
         (NewMachine \<lparr>reads = [],
                      wlog = [(OutputStreamEntryMessage (Value [0x0A, 2, 0x20, 1]), True), (EndMessage, True)],
                      wscript = []\<rparr>)
         \<lparr>id := ''inv-1'', entries := [EntryMessage SetState [1], EntryMessage GetState [2]]\<rparr>)"
    using d by (simp add: eval_simps startFrame_def wireProto_simps invoke_def succeeds_def
        Machine_output_def mwrite_def Write_def stream_def NewMachine_def)
  show ?thesis
    using 1 2 3 4 by blast
qed

text \<open>
  Claim C7. The Start payload announces partial state and one key. After the session the key is in
  the state map, but the machine's partial flag is still false, as the handler saw it: the
  flag is never taken from the payload.
\<close>

theorem partial_flag_not_seeded:
  "Start wireProto reportPartial
        (NewMachine (stream [startFrame 1 1 True [([1], [2])], PollInputEntry []]))
      = (None,
         \<lparr>id = ''inv-1'', partial = False, current = [[1] \<mapsto> [2]], entries = [],
          entryIndex = 0,
          protocol = \<lparr>reads = [],
                       wlog = [(OutputStreamEntryMessage (Value [0x0A, 2, 0x20, 0]), True), (EndMessage, True)],
                       wscript = []\<rparr>\<rparr>)"
  by (simp add: Start_def process_def Read_def readEntries.simps startFrame_def stream_def
      NewMachine_def Version_def invoke_def reportPartial_def Machine_output_def wireProto_simps
      mwrite_def Write_def)

text \<open>
  Claim C8. A panic of the handler that is not the sentinel is recovered by \<^verbatim>\<open>invoke\<close>: it writes
  one Error message with code INTERNAL (13), the printed panic value as message and the
  backtrace as description (End follows), and returns nil instead of panicking.
\<close>

theorem invoke_recovers_panic:
  assumes "h m input = (Panicked (otherPanic v stack), m1)"
  shows "fst (invoke pr h m input) = None
       \<and> attempted (protocol (snd (invoke pr h m input)))
           = attempted (protocol m1) @ [ErrorMessage 13 v stack, EndMessage]
       \<and> ucast INTERNAL = (13 :: 32 word)"
  using assms by (simp add: invoke_other mwrite_attempted INTERNAL_def)

theorem invoke_recovers_panic_witness:
  "fst (invoke wireProto panics (NewMachine emptyConn) emptyRequest) = None
   \<and> attempted (protocol (snd (invoke wireProto panics (NewMachine emptyConn) emptyRequest)))
       = [ErrorMessage 13 ''boom'' ''goroutine 1 [running]'', EndMessage]"
proof -
  have h: "panics (NewMachine emptyConn) emptyRequest
      = (Panicked (otherPanic ''boom'' ''goroutine 1 [running]''), NewMachine emptyConn)"
    by (simp add: panics_def)
  have a: "attempted (protocol (NewMachine emptyConn)) = []"
    by (simp add: NewMachine_def emptyConn_def attempted_def)
  show ?thesis
    using invoke_recovers_panic [where h = panics and m = "NewMachine emptyConn"
        and input = emptyRequest and pr = wireProto, OF h] a by simp
qed

text \<open>
  Claim C9. When the handler returns, \<^verbatim>\<open>invoke\<close> writes the message built by \<^verbatim>\<open>output\<close> and then
  End, in that order; the write of End is attempted also when the first write fails, and
  the error of the first write is what \<^verbatim>\<open>invoke\<close> returns.
\<close>

theorem invoke_output_then_end:
  assumes "h m input = (Returned (r, err), m1)"
  shows "attempted (protocol (snd (invoke pr h m input)))
           = attempted (protocol m1) @ [Machine_output pr r err, EndMessage]
       \<and> fst (invoke pr h m input) = fst (mwrite m1 (Machine_output pr r err))
       \<and> (wscript (protocol m1) = [] \<longrightarrow>
            sent (protocol (snd (invoke pr h m input)))
              = sent (protocol m1) @ [Machine_output pr r err, EndMessage])
       \<and> (wscript (protocol m1) = Some e # ws \<longrightarrow>
            fst (invoke pr h m input) = Some e
          \<and> last (attempted (protocol (snd (invoke pr h m input)))) = EndMessage)"
  using assms
  by (simp add: invoke_returned invoke_returned_fst invoke_returned_sent mwrite_fails)

theorem invoke_output_then_end_witness:
  "succeeds (NewMachine failingWrites) emptyRequest = (Returned (reply True, None), NewMachine failingWrites)
   \<and> wscript (protocol (NewMachine failingWrites)) = [Some (errorString ''short write'')]
   \<and> fst (invoke wireProto succeeds (NewMachine failingWrites) emptyRequest)
        = Some (errorString ''short write'')
   \<and> attempted (protocol (snd (invoke wireProto succeeds (NewMachine failingWrites) emptyRequest)))
        = [OutputStreamEntryMessage (Value [0x0A, 2, 0x20, 1]), EndMessage]
   \<and> succeeds (NewMachine emptyConn) emptyRequest = (Returned (reply True, None), NewMachine emptyConn)
   \<and> wscript (protocol (NewMachine emptyConn)) = []
   \<and> sent (protocol (snd (invoke wireProto succeeds (NewMachine emptyConn) emptyRequest)))
        = [OutputStreamEntryMessage (Value [0x0A, 2, 0x20, 1]), EndMessage]"
proof -
  have h: "succeeds (NewMachine failingWrites) emptyRequest = (Returned (reply True, None), NewMachine failingWrites)"
    and h': "succeeds (NewMachine emptyConn) emptyRequest = (Returned (reply True, None), NewMachine emptyConn)"
    by (simp_all add: succeeds_def)
  have w: "wscript (protocol (NewMachine failingWrites)) = [Some (errorString ''short write'')]"
    and w': "wscript (protocol (NewMachine emptyConn)) = []"
    and a: "attempted (protocol (NewMachine failingWrites)) = []"
    and s: "sent (protocol (NewMachine emptyConn)) = []"
    by (simp_all add: NewMachine_def failingWrites_def emptyConn_def attempted_def sent_def)
  have o: "Machine_output wireProto (reply True) None = OutputStreamEntryMessage (Value [0x0A, 2, 0x20, 1])"
    by (simp add: Machine_output_def wireProto_simps)
  note t1 = invoke_output_then_end [where h = succeeds and m = "NewMachine failingWrites"
      and input = emptyRequest and pr = wireProto and e = "errorString ''short write''" and ws = "[]", OF h]
  note t2 = invoke_output_then_end [where h = succeeds and m = "NewMachine emptyConn"
      and input = emptyRequest and pr = wireProto, OF h']
  have 1: "fst (invoke wireProto succeeds (NewMachine failingWrites) emptyRequest)
        = Some (errorString ''short write'')"
    using t1 w by blast
  have 2: "attempted (protocol (snd (invoke wireProto succeeds (NewMachine failingWrites) emptyRequest)))
        = [OutputStreamEntryMessage (Value [0x0A, 2, 0x20, 1]), EndMessage]"
    using t1 a o by simp
  have 3: "sent (protocol (snd (invoke wireProto succeeds (NewMachine emptyConn) emptyRequest)))
        = [OutputStreamEntryMessage (Value [0x0A, 2, 0x20, 1]), EndMessage]"
    using t2 w' s o by simp
  show ?thesis
    using h h' w w' 1 2 3 by blast
qed

text \<open>
  Claim C10. The wrapper combinators: \<^verbatim>\<open>TerminalError(nil)\<close> and \<^verbatim>\<open>WithErrorCode(nil, c)\<close>
  are nil; for a non-nil error \<open>e\<close>, \<^verbatim>\<open>TerminalError(e)\<close> is terminal, the code of
  \<^verbatim>\<open>TerminalError(e, c)\<close> and of \<^verbatim>\<open>WithErrorCode(e, c)\<close> is \<open>c\<close>, an error never wrapped
  in a code has code UNKNOWN, and \<^verbatim>\<open>WithErrorCode\<close> keeps a terminal error terminal.
\<close>

theorem error_wrappers_algebra:
  "TerminalError None cs = Inr None
   \<and> WithErrorCode None c = None
   \<and> (\<exists>t. TerminalError (Some e) [] = Inr (Some t) \<and> IsTerminalError (Some t))
   \<and> (\<exists>t. TerminalError (Some e) [c] = Inr (Some t) \<and> IsTerminalError (Some t)
           \<and> ErrorCode (Some t) = c)
   \<and> ErrorCode (WithErrorCode (Some e) c) = c
   \<and> (neverCoded e \<longrightarrow> ErrorCode (Some e) = UNKNOWN)
   \<and> ErrorCode None = UNKNOWN
   \<and> (IsTerminalError (Some e) \<longrightarrow> IsTerminalError (WithErrorCode (Some e) c))"
  by (simp add: TerminalError_def WithErrorCode_def IsTerminalError_def ErrorCode_def
      asCode_neverCoded)

theorem error_wrappers_algebra_witness:
  "neverCoded (terminalError (errorString ''missing''))
   \<and> ErrorCode (Some (terminalError (errorString ''missing''))) = UNKNOWN
   \<and> IsTerminalError (Some (terminalError (errorString ''missing'')))
   \<and> IsTerminalError (WithErrorCode (Some (terminalError (errorString ''missing''))) NOT_FOUND)
   \<and> ErrorCode (WithErrorCode (Some (terminalError (errorString ''missing''))) NOT_FOUND)
       = NOT_FOUND"
  using error_wrappers_algebra [of "[]" NOT_FOUND "terminalError (errorString ''missing'')"]
  by (simp add: IsTerminalError_def)

end
